theory Spec2Isabelle
  imports Main "HOL-Library.Sublist"
begin

section \<open>Values that cross the boundary of the two modules\<close>

text \<open>
  A value that a promise rejects with, or that a \<^verbatim>\<open>throw\<close> raises. The sources
  produce three kinds: an \<^verbatim>\<open>Error\<close> object with a message
  (\<^verbatim>\<open>throw new Error(...)\<close>, and what the SDK and \<^verbatim>\<open>fetch\<close> reject with), a bare
  string (\<^verbatim>\<open>reject('FileReader did not return a string.')\<close>) and the event object
  that \<^verbatim>\<open>reader.onerror\<close> passes on (\<^verbatim>\<open>reject(error)\<close>).
\<close>

datatype thrown = ErrorObj string | StringVal string | EventObj

text \<open>\<^verbatim>\<open>err.message\<close>: only an \<^verbatim>\<open>Error\<close> object has the property; on a string and on
  an event it reads \<^verbatim>\<open>undefined\<close>.\<close>

fun message :: "thrown \<Rightarrow> string option" where
  "message (ErrorObj m) = Some m"
| "message (StringVal s) = None"
| "message EventObj = None"

record File =
  file_name :: string
  file_type :: string

datatype blob = Blob string

text \<open>The job handle of the SDK (\<^verbatim>\<open>GenerateVideosOperation\<close>), with the fields the
  client reads: \<^verbatim>\<open>done\<close> and \<^verbatim>\<open>response?.generatedVideos?.[0]?.video?.uri\<close>.
  An absent (\<^verbatim>\<open>undefined\<close>) field is \<open>None\<close>; an absent \<^verbatim>\<open>done\<close> is falsy.\<close>

record Video =
  uri :: "string option"

record GeneratedVideo =
  video :: "Video option"

record GenerateVideosResponse =
  generatedVideos :: "GeneratedVideo list option"

record GenerateVideosOperation =
  op_name :: string
  op_done :: bool
  response :: "GenerateVideosResponse option"

record request =
  req_model :: string
  req_prompt :: string
  req_imageBytes :: "string option"
  req_mimeType :: string
  req_numberOfVideos :: nat

record fetch_response =
  ok :: bool
  statusText :: string
  body_blob :: "thrown + blob"

datatype reader_result = ResultString string | ResultOther | ReadFailed

text \<open>
  Everything the two modules ask of the outside: the environment variable, the file
  reader, the three remote calls and the browser's object URLs. The status query is
  answered by the number of queries made before it and the handle sent.
\<close>

record env =
  API_KEY :: "string option"
  readAsDataURL :: "File \<Rightarrow> reader_result"
  generateVideos :: "request \<Rightarrow> thrown + GenerateVideosOperation"
  getVideosOperation :: "nat \<Rightarrow> GenerateVideosOperation \<Rightarrow> thrown + GenerateVideosOperation"
  fetch :: "string \<Rightarrow> thrown + fetch_response"
  createObjectURL_file :: "File \<Rightarrow> string"
  createObjectURL_blob :: "blob \<Rightarrow> string"

text \<open>What a run does that can be observed from outside, in order.\<close>

datatype event =
    OnProgress string
  | ReadFile File
  | GenerateVideos request
  | SetTimeout nat
  | GetVideosOperation GenerateVideosOperation
  | ConsoleError_Polling thrown
  | ConsoleError_Response GenerateVideosOperation
  | ConsoleError_Caught thrown
  | Fetch string

text \<open>The caller's state (changed only through the callback), the events so far, and
  the number of status queries made.\<close>

record 'u world =
  ui :: 'u
  log :: "event list"
  polls :: nat

definition emit :: "event \<Rightarrow> 'u world \<Rightarrow> 'u world" where
  "emit e w = w\<lparr>log := log w @ [e]\<rparr>"

definition call_onProgress :: "(string \<Rightarrow> 'u \<Rightarrow> 'u) \<Rightarrow> string \<Rightarrow> 'u world \<Rightarrow> 'u world" where
  "call_onProgress onProgress m w = emit (OnProgress m) (w\<lparr>ui := onProgress m (ui w)\<rparr>)"


section \<open>services/geminiService.ts\<close>

subsection \<open>fileToBase64\<close>

text \<open>\<^verbatim>\<open>s.split(',')\<close>: the pieces between the commas, never an empty array.\<close>

fun split_comma :: "string \<Rightarrow> string list" where
  "split_comma [] = [[]]"
| "split_comma (c # cs) =
     (if c = CHR '','' then [] # split_comma cs
      else (case split_comma cs of
              [] \<Rightarrow> [[c]]
            | p # ps \<Rightarrow> (c # p) # ps))"

text \<open>\<^verbatim>\<open>xs[i]\<close> of JavaScript: \<^verbatim>\<open>undefined\<close> out of range.\<close>

definition js_index :: "'a list \<Rightarrow> nat \<Rightarrow> 'a option" where
  "js_index xs i = (if i < length xs then Some (xs ! i) else None)"

definition fileToBase64 :: "env \<Rightarrow> File \<Rightarrow> thrown + string option" where
  "fileToBase64 e f =
     (case readAsDataURL e f of
        ReadFailed \<Rightarrow> Inl EventObj
      | ResultOther \<Rightarrow> Inl (StringVal ''FileReader did not return a string.'')
      | ResultString r \<Rightarrow> Inr (js_index (split_comma r) 1))"

subsection \<open>pollOperation\<close>

definition progressMessages :: "string list" where
  "progressMessages =
     [''Warming up the AI generators...'',
      ''Analyzing image composition...'',
      ''Dreaming up video frames...'',
      ''Stitching scenes together...'',
      ''Applying cinematic effects...'',
      ''Rendering the final cut...'',
      ''Almost there, adding final touches...'']"

text \<open>The state of the loop: \<^verbatim>\<open>currentOperation\<close>, \<^verbatim>\<open>messageIndex\<close> and the world.\<close>

type_synonym 'u poll_state = "GenerateVideosOperation \<times> nat \<times> 'u world"

text \<open>One pass through the body of the \<^verbatim>\<open>while\<close>: the progress callback, the
  increment, the ten-second timer, the status query inside \<^verbatim>\<open>try\<close>, and the
  \<^verbatim>\<open>catch\<close> that logs and goes on with the old handle. \<^verbatim>\<open>messageIndex\<close> is a
  JavaScript number, exact up to \<open>2^53\<close>; at one pass every ten seconds the counter
  stays far below that, and it is a natural number here.\<close>

definition poll_body :: "env \<Rightarrow> (string \<Rightarrow> 'u \<Rightarrow> 'u) \<Rightarrow> 'u poll_state \<Rightarrow> 'u poll_state" where
  "poll_body ai onProgress st =
     (case st of (currentOperation, messageIndex, w) \<Rightarrow>
        let w1 = call_onProgress onProgress
                   (progressMessages ! (messageIndex mod length progressMessages)) w;
            messageIndex' = messageIndex + 1;
            w2 = emit (SetTimeout 10000) w1;
            w3 = (emit (GetVideosOperation currentOperation) w2)\<lparr>polls := polls w2 + 1\<rparr>
        in (case getVideosOperation ai (polls w2) currentOperation of
              Inr operation' \<Rightarrow> (operation', messageIndex', w3)
            | Inl e \<Rightarrow> (currentOperation, messageIndex', emit (ConsoleError_Polling e) w3)))"

text \<open>The \<^verbatim>\<open>while (!currentOperation.done)\<close> loop. It has no bound, so it is a
  partial function: \<open>None\<close> is the run that never leaves the loop.\<close>

partial_function (option) poll_loop ::
  "env \<Rightarrow> (string \<Rightarrow> 'u \<Rightarrow> 'u) \<Rightarrow> 'u poll_state \<Rightarrow> 'u poll_state option" where
  "poll_loop ai onProgress st =
     (if op_done (fst st) then Some st
      else poll_loop ai onProgress (poll_body ai onProgress st))"

declare poll_loop.simps [code]

definition pollOperation ::
  "env \<Rightarrow> GenerateVideosOperation \<Rightarrow> (string \<Rightarrow> 'u \<Rightarrow> 'u) \<Rightarrow> 'u world
     \<Rightarrow> (GenerateVideosOperation \<times> 'u world) option" where
  "pollOperation ai operation onProgress w =
     (case poll_loop ai onProgress (operation, 0, w) of
        None \<Rightarrow> None
      | Some (currentOperation, messageIndex, w') \<Rightarrow> Some (currentOperation, w'))"

subsection \<open>generateVideoFromImage\<close>

text \<open>\<^verbatim>\<open>completedOperation.response?.generatedVideos?.[0]?.video?.uri\<close>\<close>

definition downloadLink :: "GenerateVideosOperation \<Rightarrow> string option" where
  "downloadLink completedOperation =
     (case response completedOperation of
        None \<Rightarrow> None
      | Some r \<Rightarrow>
          (case generatedVideos r of
             None \<Rightarrow> None
           | Some gs \<Rightarrow>
               (case js_index gs 0 of
                  None \<Rightarrow> None
                | Some g \<Rightarrow> (case video g of None \<Rightarrow> None | Some v \<Rightarrow> uri v))))"

text \<open>\<^verbatim>\<open>!s\<close> on a string that may be \<^verbatim>\<open>undefined\<close>: true when it is absent or empty.\<close>

definition falsy :: "string option \<Rightarrow> bool" where
  "falsy s = (case s of None \<Rightarrow> True | Some t \<Rightarrow> t = [])"

text \<open>The argument of \<^verbatim>\<open>ai.models.generateVideos\<close>.\<close>

definition request_of :: "string option \<Rightarrow> string \<Rightarrow> string \<Rightarrow> request" where
  "request_of base64Image mimeType prompt_text =
     \<lparr>req_model = ''veo-2.0-generate-001'', req_prompt = prompt_text,
      req_imageBytes = base64Image, req_mimeType = mimeType, req_numberOfVideos = 1\<rparr>"

definition generateVideoFromImage ::
  "env \<Rightarrow> string option \<Rightarrow> string \<Rightarrow> string \<Rightarrow> (string \<Rightarrow> 'u \<Rightarrow> 'u) \<Rightarrow> 'u world
     \<Rightarrow> ((thrown + blob) \<times> 'u world) option" where
  "generateVideoFromImage e base64Image mimeType prompt_text onProgress w =
     (if falsy (API_KEY e)
      then Some (Inl (ErrorObj
             ''API key not found. Please ensure the API_KEY environment variable is set.''), w)
      else
        let w1 = call_onProgress onProgress ''Initializing video generation...'' w;
            req = request_of base64Image mimeType prompt_text;
            w2 = emit (GenerateVideos req) w1
        in (case generateVideos e req of
              Inl err \<Rightarrow> Some (Inl err, w2)
            | Inr operation \<Rightarrow>
                let w3 = call_onProgress onProgress
                           ''Video generation started. This may take a few minutes.'' w2
                in (case pollOperation e operation onProgress w3 of
                      None \<Rightarrow> None
                    | Some (completedOperation, w4) \<Rightarrow>
                        if falsy (downloadLink completedOperation)
                        then Some (Inl (ErrorObj
                               ''Video generation failed or did not return a valid download link.''),
                               emit (ConsoleError_Response completedOperation) w4)
                        else
                          let w5 = call_onProgress onProgress ''Downloading generated video...'' w4;
                              url = the (downloadLink completedOperation) @ ''&key='' @ the (API_KEY e);
                              w6 = emit (Fetch url) w5
                          in (case fetch e url of
                                Inl err \<Rightarrow> Some (Inl err, w6)
                              | Inr videoResponse \<Rightarrow>
                                  if \<not> ok videoResponse
                                  then Some (Inl (ErrorObj (''Failed to download video: ''
                                                @ statusText videoResponse)), w6)
                                  else Some (body_blob videoResponse, w6)))))"


section \<open>App.tsx\<close>

text \<open>Modelled from the spec: the enum \<^verbatim>\<open>AppState\<close> of \<^verbatim>\<open>./types\<close> is not among the
  sources; the spec gives its four members, which are the four the component uses.\<close>

datatype AppState = IDLE | GENERATING | SUCCESS | ERROR

text \<open>The seven \<^verbatim>\<open>useState\<close> cells of the component.\<close>

record app =
  appState :: AppState
  imageFile :: "File option"
  imagePreviewUrl :: "string option"
  prompt :: string
  generatedVideoUrl :: "string option"
  error :: "string option"
  loadingMessage :: string

definition initial :: app where
  "initial = \<lparr>appState = IDLE, imageFile = None, imagePreviewUrl = None, prompt = [],
              generatedVideoUrl = None, error = None, loadingMessage = []\<rparr>"

definition setLoadingMessage :: "string \<Rightarrow> app \<Rightarrow> app" where
  "setLoadingMessage m s = s\<lparr>loadingMessage := m\<rparr>"

definition setPrompt :: "string \<Rightarrow> app \<Rightarrow> app" where
  "setPrompt t s = s\<lparr>prompt := t\<rparr>"

text \<open>\<^verbatim>\<open>handleImageChange\<close>; the argument is \<^verbatim>\<open>e.target.files?.[0]\<close>.\<close>

definition handleImageChange :: "env \<Rightarrow> File option \<Rightarrow> app \<Rightarrow> app" where
  "handleImageChange e picked s =
     (case picked of
        None \<Rightarrow> s
      | Some f \<Rightarrow>
          if prefix ''image/'' (file_type f)
          then s\<lparr>imageFile := Some f,
                 imagePreviewUrl := Some (createObjectURL_file e f),
                 error := None\<rparr>
          else s\<lparr>error := Some ''Please upload a valid image file (e.g., PNG, JPG, WEBP).'',
                 imageFile := None,
                 imagePreviewUrl := None\<rparr>)"

text \<open>\<^verbatim>\<open>handleGenerateVideo\<close> up to its first \<^verbatim>\<open>await\<close>: the guard, and the three
  setters before the \<^verbatim>\<open>try\<close>. The second component is the file and the prompt
  the run goes on with, \<open>None\<close> when the guard returned.\<close>

definition handleGenerateVideo_begin :: "app \<Rightarrow> app \<times> (File \<times> string) option" where
  "handleGenerateVideo_begin s =
     (case imageFile s of
        None \<Rightarrow> (s\<lparr>error := Some ''Please upload an image and provide a prompt.''\<rparr>, None)
      | Some f \<Rightarrow>
          if prompt s = []
          then (s\<lparr>error := Some ''Please upload an image and provide a prompt.''\<rparr>, None)
          else (s\<lparr>appState := GENERATING, error := None,
                   loadingMessage := ''Preparing your image...''\<rparr>, Some (f, prompt s)))"

text \<open>The three statements that end the \<^verbatim>\<open>try\<close> block, after the video has arrived.\<close>

definition on_resolved :: "env \<Rightarrow> blob \<Rightarrow> app \<Rightarrow> app" where
  "on_resolved e videoBlob s =
     s\<lparr>generatedVideoUrl := Some (createObjectURL_blob e videoBlob), appState := SUCCESS\<rparr>"

text \<open>The \<^verbatim>\<open>try\<close> block: the two awaited calls, then the three statements after them.
  \<open>Inl\<close> is the value it throws, with the world at that moment.\<close>

definition try_block :: "env \<Rightarrow> File \<Rightarrow> string \<Rightarrow> app world \<Rightarrow> ((thrown + unit) \<times> app world) option" where
  "try_block e f prompt_text w =
     (let w1 = emit (ReadFile f) w
      in (case fileToBase64 e f of
            Inl err \<Rightarrow> Some (Inl err, w1)
          | Inr base64Image \<Rightarrow>
              (case generateVideoFromImage e base64Image (file_type f) prompt_text
                      setLoadingMessage w1 of
                 None \<Rightarrow> None
               | Some (Inl err, w2) \<Rightarrow> Some (Inl err, w2)
               | Some (Inr videoBlob, w2) \<Rightarrow>
                   Some (Inr (), w2\<lparr>ui := on_resolved e videoBlob (ui w2)\<rparr>))))"

text \<open>\<^verbatim>\<open>err.message || 'An unknown error occurred during video generation.'\<close>\<close>

definition display_message :: "thrown \<Rightarrow> string" where
  "display_message err =
     (if falsy (message err) then ''An unknown error occurred during video generation.''
      else the (message err))"

text \<open>The \<^verbatim>\<open>catch\<close> block: its two setters, and the whole block with its log line.\<close>

definition on_rejected :: "thrown \<Rightarrow> app \<Rightarrow> app" where
  "on_rejected err s = s\<lparr>error := Some (display_message err), appState := ERROR\<rparr>"

definition catch_block :: "thrown \<Rightarrow> app world \<Rightarrow> app world" where
  "catch_block err w =
     (let w1 = emit (ConsoleError_Caught err) w
      in w1\<lparr>ui := on_rejected err (ui w1)\<rparr>)"

definition handleGenerateVideo :: "env \<Rightarrow> app world \<Rightarrow> app world option" where
  "handleGenerateVideo e w =
     (case handleGenerateVideo_begin (ui w) of
        (s, None) \<Rightarrow> Some (w\<lparr>ui := s\<rparr>)
      | (s, Some (f, prompt_text)) \<Rightarrow>
          (case try_block e f prompt_text (w\<lparr>ui := s\<rparr>) of
             None \<Rightarrow> None
           | Some (Inl err, w') \<Rightarrow> Some (catch_block err w')
           | Some (Inr u, w') \<Rightarrow> Some w'))"

definition resetState :: "app \<Rightarrow> app" where
  "resetState s =
     s\<lparr>appState := IDLE, imageFile := None, imagePreviewUrl := None, prompt := [],
       generatedVideoUrl := None, error := None, loadingMessage := []\<rparr>"

subsection \<open>renderContent\<close>

text \<open>What \<^verbatim>\<open>renderContent\<close> puts on the page, as far as behaviour goes: the texts
  shown and the controls that exist. Only the idle view has the file input, the prompt
  field and the Generate button (with its \<^verbatim>\<open>disabled\<close> attribute); only the success
  and error views have the reset button; the generating view has no control.\<close>

datatype view =
    GeneratingView string
  | SuccessView "string option"
  | ErrorView "string option"
  | IdleView "string option" string "string option" bool

definition renderContent :: "app \<Rightarrow> view" where
  "renderContent s =
     (case appState s of
        GENERATING \<Rightarrow> GeneratingView (loadingMessage s)
      | SUCCESS \<Rightarrow> SuccessView (generatedVideoUrl s)
      | ERROR \<Rightarrow> ErrorView (error s)
      | IDLE \<Rightarrow> IdleView (imagePreviewUrl s) (prompt s) (error s)
                 (imageFile s = None \<or> prompt s = []))"

subsection \<open>A session: the user's actions and the job's callbacks, one at a time\<close>

text \<open>
  The handlers are reachable only through the controls of the view that is on the page:
  \<^verbatim>\<open>onClick={handleGenerateVideo}\<close>, \<^verbatim>\<open>onChange={handleImageChange}\<close> and the prompt's
  \<^verbatim>\<open>onChange\<close> in the idle view, \<^verbatim>\<open>onClick={resetState}\<close> in the success and error
  views. A disabled button fires no click. The callbacks of a run (the progress
  messages, the end of the \<^verbatim>\<open>try\<close> block, the \<^verbatim>\<open>catch\<close> block) arrive between the
  user's actions, while a run is under way. \<open>jobs\<close> counts the runs of
  \<^verbatim>\<open>handleGenerateVideo\<close> that passed the guard and have not yet ended.
\<close>

datatype action =
    ClickGenerate
  | PickFile "File option"
  | TypePrompt string
  | ClickReset
  | JobProgress string
  | JobResolved blob
  | JobRejected thrown

record session =
  page :: app
  jobs :: nat

definition step :: "env \<Rightarrow> action \<Rightarrow> session \<Rightarrow> session option" where
  "step e a c =
     (case a of
        ClickGenerate \<Rightarrow>
          (case renderContent (page c) of
             IdleView preview prompt_text err disabled \<Rightarrow>
               if disabled then None
               else (case handleGenerateVideo_begin (page c) of
                       (s, None) \<Rightarrow> Some (c\<lparr>page := s\<rparr>)
                     | (s, Some run) \<Rightarrow> Some (c\<lparr>page := s, jobs := jobs c + 1\<rparr>))
           | _ \<Rightarrow> None)
      | PickFile picked \<Rightarrow>
          (case renderContent (page c) of
             IdleView preview prompt_text err disabled \<Rightarrow>
               Some (c\<lparr>page := handleImageChange e picked (page c)\<rparr>)
           | _ \<Rightarrow> None)
      | TypePrompt t \<Rightarrow>
          (case renderContent (page c) of
             IdleView preview prompt_text err disabled \<Rightarrow> Some (c\<lparr>page := setPrompt t (page c)\<rparr>)
           | _ \<Rightarrow> None)
      | ClickReset \<Rightarrow>
          (case renderContent (page c) of
             SuccessView url \<Rightarrow> Some (c\<lparr>page := resetState (page c)\<rparr>)
           | ErrorView err \<Rightarrow> Some (c\<lparr>page := resetState (page c)\<rparr>)
           | _ \<Rightarrow> None)
      | JobProgress m \<Rightarrow>
          if jobs c = 0 then None else Some (c\<lparr>page := setLoadingMessage m (page c)\<rparr>)
      | JobResolved videoBlob \<Rightarrow>
          if jobs c = 0 then None
          else Some (c\<lparr>page := on_resolved e videoBlob (page c), jobs := jobs c - 1\<rparr>)
      | JobRejected err \<Rightarrow>
          if jobs c = 0 then None
          else Some (c\<lparr>page := on_rejected err (page c), jobs := jobs c - 1\<rparr>))"

fun run :: "env \<Rightarrow> action list \<Rightarrow> session \<Rightarrow> session option" where
  "run e [] c = Some c"
| "run e (a # as) c = (case step e a c of None \<Rightarrow> None | Some c' \<Rightarrow> run e as c')"

definition start :: session where
  "start = \<lparr>page = initial, jobs = 0\<rparr>"


section \<open>Reading the log\<close>

text \<open>The progress calls and the status queries of a log, in order, everything else
  left out.\<close>

datatype tick = Msg string | Query

fun tick_of :: "event \<Rightarrow> tick list" where
  "tick_of (OnProgress m) = [Msg m]"
| "tick_of (GetVideosOperation operation) = [Query]"
| "tick_of (ReadFile f) = []"
| "tick_of (GenerateVideos req) = []"
| "tick_of (SetTimeout n) = []"
| "tick_of (ConsoleError_Polling err) = []"
| "tick_of (ConsoleError_Response operation) = []"
| "tick_of (ConsoleError_Caught err) = []"
| "tick_of (Fetch url) = []"

definition ticks :: "event list \<Rightarrow> tick list" where
  "ticks l = concat (map tick_of l)"

text \<open>The calls that go over the network: the job submission, the status query and
  the download.\<close>

fun is_network :: "event \<Rightarrow> bool" where
  "is_network (GenerateVideos req) = True"
| "is_network (GetVideosOperation operation) = True"
| "is_network (Fetch url) = True"
| "is_network (OnProgress m) = False"
| "is_network (ReadFile f) = False"
| "is_network (SetTimeout n) = False"
| "is_network (ConsoleError_Polling err) = False"
| "is_network (ConsoleError_Response operation) = False"
| "is_network (ConsoleError_Caught err) = False"

fun is_fetch :: "event \<Rightarrow> bool" where
  "is_fetch (Fetch url) = True"
| "is_fetch (GenerateVideos req) = False"
| "is_fetch (GetVideosOperation operation) = False"
| "is_fetch (OnProgress m) = False"
| "is_fetch (ReadFile f) = False"
| "is_fetch (SetTimeout n) = False"
| "is_fetch (ConsoleError_Polling err) = False"
| "is_fetch (ConsoleError_Response operation) = False"
| "is_fetch (ConsoleError_Caught err) = False"

fun progress_of :: "event \<Rightarrow> string list" where
  "progress_of (OnProgress m) = [m]"
| "progress_of (Fetch url) = []"
| "progress_of (GenerateVideos req) = []"
| "progress_of (GetVideosOperation operation) = []"
| "progress_of (ReadFile f) = []"
| "progress_of (SetTimeout n) = []"
| "progress_of (ConsoleError_Polling err) = []"
| "progress_of (ConsoleError_Response operation) = []"
| "progress_of (ConsoleError_Caught err) = []"

definition progress :: "event list \<Rightarrow> string list" where
  "progress l = concat (map progress_of l)"

text \<open>The handle the client holds after \<open>k\<close> status queries, the first of them being
  query number \<open>n\<close> about the handle \<open>operation\<close>: an answer replaces the handle, a
  failed query leaves it. It is read off the answers of the service alone. The job
  reports completion at query \<open>k\<close> of a run when this handle is done.\<close>

fun handle_after :: "env \<Rightarrow> nat \<Rightarrow> GenerateVideosOperation \<Rightarrow> nat \<Rightarrow> GenerateVideosOperation" where
  "handle_after ai n operation 0 = operation"
| "handle_after ai n operation (Suc k) =
     (case getVideosOperation ai n operation of
        Inl err \<Rightarrow> handle_after ai (Suc n) operation k
      | Inr operation' \<Rightarrow> handle_after ai (Suc n) operation' k)"

text \<open>The world in which \<^verbatim>\<open>generateVideoFromImage\<close> calls \<^verbatim>\<open>pollOperation\<close>: after the
  first progress message, the job submission and the second progress message.\<close>

definition world_at_poll :: "(string \<Rightarrow> 'u \<Rightarrow> 'u) \<Rightarrow> request \<Rightarrow> 'u world \<Rightarrow> 'u world" where
  "world_at_poll onProgress req w =
     call_onProgress onProgress ''Video generation started. This may take a few minutes.''
       (emit (GenerateVideos req)
         (call_onProgress onProgress ''Initializing video generation...'' w))"

text \<open>\<open>grows f w evs w'\<close>: the world \<open>w'\<close> is \<open>w\<close> with the events \<open>evs\<close> added to the log
  and the caller's state changed by the callback \<open>f\<close> only, once for each progress
  event among them, in order.\<close>

definition grows :: "(string \<Rightarrow> 'u \<Rightarrow> 'u) \<Rightarrow> 'u world \<Rightarrow> event list \<Rightarrow> 'u world \<Rightarrow> bool" where
  "grows f w evs w' =
     (log w' = log w @ evs \<and> ui w' = foldl (\<lambda>u m. f m u) (ui w) (progress evs))"

text \<open>The events of one pass through the loop body.\<close>

definition pass_events :: "env \<Rightarrow> 'u poll_state \<Rightarrow> event list" where
  "pass_events ai st =
     (case st of (c, i, w) \<Rightarrow>
        [OnProgress (progressMessages ! (i mod 7)), SetTimeout 10000, GetVideosOperation c]
          @ (case getVideosOperation ai (polls w) c of
               Inl err \<Rightarrow> [ConsoleError_Polling err] | Inr c' \<Rightarrow> []))"

text \<open>A run is under way exactly when the session state is generating.\<close>

definition session_ok :: "session \<Rightarrow> bool" where
  "session_ok c = (jobs c = (if appState (page c) = GENERATING then 1 else 0))"


section \<open>A scenario to run the definitions on\<close>

definition cat_png :: File where
  "cat_png = \<lparr>file_name = ''cat.png'', file_type = ''image/png''\<rparr>"

definition notes_txt :: File where
  "notes_txt = \<lparr>file_name = ''notes.txt'', file_type = ''text/plain''\<rparr>"

definition pending_operation :: GenerateVideosOperation where
  "pending_operation = \<lparr>op_name = ''operations/1'', op_done = False, response = None\<rparr>"

definition completed_operation :: GenerateVideosOperation where
  "completed_operation =
     \<lparr>op_name = ''operations/1'', op_done = True,
      response = Some \<lparr>generatedVideos =
        Some [\<lparr>video = Some \<lparr>uri = Some ''https://videos.example/1?alt=media''\<rparr>\<rparr>]\<rparr>\<rparr>"

definition empty_operation :: GenerateVideosOperation where
  "empty_operation =
     \<lparr>op_name = ''operations/1'', op_done = True,
      response = Some \<lparr>generatedVideos = Some []\<rparr>\<rparr>"

text \<open>The service answers the first status query with the finished job, and the
  download succeeds.\<close>

definition happy_env :: env where
  "happy_env =
     \<lparr>API_KEY = Some ''secret'',
      readAsDataURL = (\<lambda>f. ResultString ''data:image/png;base64,iVBORw0KGgo=''),
      generateVideos = (\<lambda>req. Inr pending_operation),
      getVideosOperation = (\<lambda>n operation. Inr completed_operation),
      fetch = (\<lambda>url. Inr \<lparr>ok = True, statusText = ''OK'', body_blob = Inr (Blob ''mp4'')\<rparr>),
      createObjectURL_file = (\<lambda>f. ''blob:preview''),
      createObjectURL_blob = (\<lambda>b. ''blob:video'')\<rparr>"


definition flaky_env :: env where
  "flaky_env =
     happy_env\<lparr>getVideosOperation :=
       (\<lambda>n operation. if n = 0 then Inl (ErrorObj ''Failed to fetch'') else Inr completed_operation)\<rparr>"

definition empty_env :: env where
  "empty_env = happy_env\<lparr>getVideosOperation := (\<lambda>n operation. Inr empty_operation)\<rparr>"

definition keyless_env :: env where
  "keyless_env = happy_env\<lparr>API_KEY := None\<rparr>"


definition ready_page :: app where
  "ready_page = initial\<lparr>imageFile := Some cat_png, imagePreviewUrl := Some ''blob:preview'',
                        prompt := ''a cat walking''\<rparr>"

definition ready :: "app world" where
  "ready = \<lparr>ui = ready_page, log = [], polls = 0\<rparr>"


section \<open>The poll loop\<close>

lemma poll_loop_done: "op_done (fst st) \<Longrightarrow> poll_loop ai f st = Some st"
  by (subst poll_loop.simps) simp

lemma poll_loop_step: "\<not> op_done (fst st) \<Longrightarrow> poll_loop ai f st = poll_loop ai f (poll_body ai f st)"
  by (subst poll_loop.simps) simp

lemma poll_loop_Some_iter:
  assumes "poll_loop ai f st = Some st'"
  shows "\<exists>k. st' = (poll_body ai f ^^ k) st \<and> op_done (fst st')"
proof (rule poll_loop.raw_induct[where P = "\<lambda>ai f st st'. \<exists>k. st' = (poll_body ai f ^^ k) st \<and> op_done (fst st')", OF _ assms])
  fix loop :: "env \<Rightarrow> (string \<Rightarrow> 'a \<Rightarrow> 'a) \<Rightarrow> 'a poll_state \<Rightarrow> 'a poll_state option"
  fix ai f st st'
  assume IH: "\<And>ai f st st'. loop ai f st = Some st' \<Longrightarrow> \<exists>k. st' = (poll_body ai f ^^ k) st \<and> op_done (fst st')"
  assume eq: "(if op_done (fst st) then Some st else loop ai f (poll_body ai f st)) = Some st'"
  show "\<exists>k. st' = (poll_body ai f ^^ k) st \<and> op_done (fst st')"
  proof (cases "op_done (fst st)")
    case True
    with eq have "st' = st" by simp
    with True have "st' = (poll_body ai f ^^ 0) st \<and> op_done (fst st')" by simp
    then show ?thesis by blast
  next
    case False
    with eq have "loop ai f (poll_body ai f st) = Some st'" by simp
    from IH[OF this] obtain k where
      "st' = (poll_body ai f ^^ k) (poll_body ai f st)" "op_done (fst st')" by blast
    then have "st' = (poll_body ai f ^^ Suc k) st \<and> op_done (fst st')"
      by (simp add: funpow_swap1)
    then show ?thesis by blast
  qed
qed


lemma poll_body_fst:
  "fst (poll_body ai f (c, i, w)) =
     (case getVideosOperation ai (polls w) c of Inl err \<Rightarrow> c | Inr c' \<Rightarrow> c')"
  by (simp add: poll_body_def Let_def emit_def call_onProgress_def split: sum.split)


lemma poll_body_polls: "polls (snd (snd (poll_body ai f (c, i, w)))) = polls w + 1"
  by (simp add: poll_body_def Let_def emit_def call_onProgress_def split: sum.split)

lemma poll_body_ui:
  "ui (snd (snd (poll_body ai f (c, i, w)))) =
     f (progressMessages ! (i mod length progressMessages)) (ui w)"
  by (simp add: poll_body_def Let_def emit_def call_onProgress_def split: sum.split)

lemma poll_body_log:
  "log (snd (snd (poll_body ai f (c, i, w)))) =
     log w @ [OnProgress (progressMessages ! (i mod length progressMessages)),
              SetTimeout 10000, GetVideosOperation c]
       @ (case getVideosOperation ai (polls w) c of
            Inl err \<Rightarrow> [ConsoleError_Polling err] | Inr c' \<Rightarrow> [])"
  by (simp add: poll_body_def Let_def emit_def call_onProgress_def split: sum.split)

lemma length_progressMessages: "length progressMessages = 7"
  by (simp add: progressMessages_def)

lemma ticks_append: "ticks (xs @ ys) = ticks xs @ ticks ys"
  by (simp add: ticks_def)





lemma iter_handle:
  "fst ((poll_body ai f ^^ k) (c, i, w)) = handle_after ai (polls w) c k"
proof (induction k arbitrary: c i w)
  case 0
  show ?case by simp
next
  case (Suc k)
  obtain c' i' w' where pb: "poll_body ai f (c, i, w) = (c', i', w')"
    by (cases "poll_body ai f (c, i, w)") auto
  have c': "c' = (case getVideosOperation ai (polls w) c of Inl err \<Rightarrow> c | Inr d \<Rightarrow> d)"
    using poll_body_fst [of ai f c i w] by (simp add: pb)
  have p': "polls w' = Suc (polls w)"
    using poll_body_polls [of ai f c i w] by (simp add: pb)
  have "fst ((poll_body ai f ^^ Suc k) (c, i, w)) = fst ((poll_body ai f ^^ k) (c', i', w'))"
    by (simp add: funpow_swap1 pb)
  also have "\<dots> = handle_after ai (polls w') c' k" by (rule Suc.IH)
  also have "\<dots> = handle_after ai (polls w) c (Suc k)"
    by (simp add: c' p' split: sum.split)
  finally show ?case .
qed

lemma poll_loop_iter:
  "\<forall>j<k. \<not> op_done (fst ((poll_body ai f ^^ j) st)) \<Longrightarrow>
   poll_loop ai f st = poll_loop ai f ((poll_body ai f ^^ k) st)"
proof (induction k)
  case 0
  show ?case by simp
next
  case (Suc k)
  then have "poll_loop ai f st = poll_loop ai f ((poll_body ai f ^^ k) st)" by simp
  also have "\<dots> = poll_loop ai f (poll_body ai f ((poll_body ai f ^^ k) st))"
    using Suc.prems by (simp add: poll_loop_step)
  finally show ?case by simp
qed

lemma poll_loop_returns:
  assumes "\<forall>j<k. \<not> op_done (fst ((poll_body ai f ^^ j) st))"
      and "op_done (fst ((poll_body ai f ^^ k) st))"
  shows "poll_loop ai f st = Some ((poll_body ai f ^^ k) st)"
  using poll_loop_iter [OF assms(1)] assms(2) by (simp add: poll_loop_done)

lemma pollOperation_returns:
  assumes "\<forall>j<k. \<not> op_done (handle_after ai (polls w) operation j)"
      and "op_done (handle_after ai (polls w) operation k)"
  shows "pollOperation ai operation f w =
           Some (handle_after ai (polls w) operation k,
                 snd (snd ((poll_body ai f ^^ k) (operation, 0, w))))"
proof -
  have "poll_loop ai f (operation, 0, w) = Some ((poll_body ai f ^^ k) (operation, 0, w))"
    using assms by (intro poll_loop_returns) (simp_all add: iter_handle)
  then show ?thesis
    using iter_handle [where ai = ai and f = f and k = k and c = operation and i = 0 and w = w]
    by (cases "(poll_body ai f ^^ k) (operation, 0, w)") (simp add: pollOperation_def)
qed


lemma polls_world_at_poll: "polls (world_at_poll f req w) = polls w"
  by (simp add: world_at_poll_def emit_def call_onProgress_def)




lemma poll_body_failed:
  assumes "getVideosOperation ai (polls w) c = Inl err"
  shows "poll_body ai f (c, i, w) =
           (c, i + 1,
            \<lparr>ui = f (progressMessages ! (i mod 7)) (ui w),
             log = log w @ [OnProgress (progressMessages ! (i mod 7)), SetTimeout 10000,
                            GetVideosOperation c, ConsoleError_Polling err],
             polls = polls w + 1\<rparr>)"
  using assms
  by (simp add: poll_body_def Let_def emit_def call_onProgress_def length_progressMessages)

text \<open>
  Claim C3. When a status query fails, the pass through the loop body ends with the
  same handle and the next message index, having logged the failure after the query; the
  loop goes on (its outcome is that of the loop after the next pass), the next pass makes
  its progress call, waits the ten seconds and queries again, and whatever the loop
  returns is a handle that is done, never the failure.
\<close>

theorem poll_failure_is_swallowed:
  assumes "\<not> op_done currentOperation"
      and "getVideosOperation ai (polls w) currentOperation = Inl err"
  shows "fst (poll_body ai onProgress (currentOperation, messageIndex, w)) = currentOperation
       \<and> fst (snd (poll_body ai onProgress (currentOperation, messageIndex, w))) = messageIndex + 1
       \<and> log (snd (snd (poll_body ai onProgress (currentOperation, messageIndex, w)))) =
           log w @ [OnProgress (progressMessages ! (messageIndex mod 7)), SetTimeout 10000,
                    GetVideosOperation currentOperation, ConsoleError_Polling err]
       \<and> poll_loop ai onProgress (currentOperation, messageIndex, w) =
           poll_loop ai onProgress
             (poll_body ai onProgress (poll_body ai onProgress (currentOperation, messageIndex, w)))
       \<and> log (snd (snd (poll_body ai onProgress
                          (poll_body ai onProgress (currentOperation, messageIndex, w))))) =
           log w @ [OnProgress (progressMessages ! (messageIndex mod 7)), SetTimeout 10000,
                    GetVideosOperation currentOperation, ConsoleError_Polling err]
             @ [OnProgress (progressMessages ! ((messageIndex + 1) mod 7)), SetTimeout 10000,
                GetVideosOperation currentOperation]
             @ (case getVideosOperation ai (polls w + 1) currentOperation of
                  Inl err' \<Rightarrow> [ConsoleError_Polling err'] | Inr operation' \<Rightarrow> [])
       \<and> (\<forall>st. poll_loop ai onProgress (currentOperation, messageIndex, w) = Some st
               \<longrightarrow> op_done (fst st))"
proof -
  let ?st = "(currentOperation, messageIndex, w)"
  note b = poll_body_failed [OF assms(2), of onProgress messageIndex]
  have 1: "poll_loop ai onProgress ?st = poll_loop ai onProgress (poll_body ai onProgress ?st)"
    using assms(1) by (simp add: poll_loop_step)
  have 2: "poll_loop ai onProgress (poll_body ai onProgress ?st) =
           poll_loop ai onProgress (poll_body ai onProgress (poll_body ai onProgress ?st))"
    using assms(1) by (simp add: poll_loop_step b)
  have 3: "\<forall>st. poll_loop ai onProgress ?st = Some st \<longrightarrow> op_done (fst st)"
    using poll_loop_Some_iter by blast
  show ?thesis
    using 1 2 3 by (simp add: b poll_body_log length_progressMessages)
qed

text \<open>C3 on the service whose first answer is a transport failure.\<close>

theorem poll_failure_is_swallowed_witness:
  "getVideosOperation flaky_env (polls ready) pending_operation = Inl (ErrorObj ''Failed to fetch'')
   \<and> fst (poll_body flaky_env setLoadingMessage (pending_operation, 0, ready)) = pending_operation
   \<and> log (snd (snd (poll_body flaky_env setLoadingMessage (pending_operation, 0, ready)))) =
        [OnProgress ''Warming up the AI generators...'', SetTimeout 10000,
         GetVideosOperation pending_operation, ConsoleError_Polling (ErrorObj ''Failed to fetch'')]
   \<and> log (snd (snd (poll_body flaky_env setLoadingMessage
                      (poll_body flaky_env setLoadingMessage (pending_operation, 0, ready))))) =
        [OnProgress ''Warming up the AI generators...'', SetTimeout 10000,
         GetVideosOperation pending_operation, ConsoleError_Polling (ErrorObj ''Failed to fetch''),
         OnProgress ''Analyzing image composition...'', SetTimeout 10000,
         GetVideosOperation pending_operation]
   \<and> poll_loop flaky_env setLoadingMessage (pending_operation, 0, ready) =
        Some (poll_body flaky_env setLoadingMessage
               (poll_body flaky_env setLoadingMessage (pending_operation, 0, ready)))"
proof -
  have h1: "\<not> op_done pending_operation" by (simp add: pending_operation_def)
  have h2: "getVideosOperation flaky_env (polls ready) pending_operation = Inl (ErrorObj ''Failed to fetch'')"
    by (simp add: flaky_env_def happy_env_def ready_def)
  have h3: "getVideosOperation flaky_env (polls ready + 1) pending_operation = Inr completed_operation"
    by (simp add: flaky_env_def happy_env_def ready_def)
  have h4: "fst (poll_body flaky_env setLoadingMessage
                  (poll_body flaky_env setLoadingMessage (pending_operation, 0, ready))) = completed_operation"
    using h3 by (simp add: poll_body_failed [OF h2] poll_body_fst)
  have h5: "op_done completed_operation" by (simp add: completed_operation_def)
  show ?thesis
    using poll_failure_is_swallowed [OF h1 h2, of setLoadingMessage 0] h2 h3 h4 h5
    by (simp add: poll_loop_done progressMessages_def) (simp add: ready_def)
qed

section \<open>What a run adds to the world\<close>

lemma progress_append: "progress (xs @ ys) = progress xs @ progress ys"
  by (simp add: progress_def)

lemma grows_refl: "grows f w [] w"
  by (simp add: grows_def progress_def)

lemma grows_trans: "grows f w xs w1 \<Longrightarrow> grows f w1 ys w2 \<Longrightarrow> grows f w (xs @ ys) w2"
  by (simp add: grows_def progress_append)

lemma grows_emit: "progress_of ev = [] \<Longrightarrow> grows f w [ev] (emit ev w)"
  by (simp add: grows_def emit_def progress_def)

lemma grows_call: "grows f w [OnProgress m] (call_onProgress f m w)"
  by (simp add: grows_def emit_def call_onProgress_def progress_def)

lemma grows_polls: "grows f w xs w1 \<Longrightarrow> grows f w xs (w1\<lparr>polls := n\<rparr>)"
  by (simp add: grows_def)

lemma pass_events_no_fetch: "filter is_fetch (pass_events ai st) = []"
  by (cases st) (simp add: pass_events_def split: sum.split)

lemma grows_poll_body: "grows f (snd (snd st)) (pass_events ai st) (snd (snd (poll_body ai f st)))"
proof -
  obtain c i w where st: "st = (c, i, w)" by (cases st) auto
  show ?thesis
    unfolding st
    by (cases "getVideosOperation ai (polls w) c")
       (simp_all add: grows_def pass_events_def poll_body_log poll_body_ui progress_def
          length_progressMessages)
qed

lemma grows_iter:
  "\<exists>evs. grows f (snd (snd st)) evs (snd (snd ((poll_body ai f ^^ k) st)))
         \<and> filter is_fetch evs = []"
proof (induction k)
  case 0
  show ?case using grows_refl [of f "snd (snd st)"] by auto
next
  case (Suc k)
  then obtain evs where
    g: "grows f (snd (snd st)) evs (snd (snd ((poll_body ai f ^^ k) st)))"
    and n: "filter is_fetch evs = []" by blast
  have "grows f (snd (snd st)) (evs @ pass_events ai ((poll_body ai f ^^ k) st))
          (snd (snd ((poll_body ai f ^^ Suc k) st)))"
    using grows_trans [OF g grows_poll_body] by simp
  moreover have "filter is_fetch (evs @ pass_events ai ((poll_body ai f ^^ k) st)) = []"
    using n by (simp add: pass_events_no_fetch)
  ultimately show ?case by blast
qed

lemma pollOperation_Some:
  assumes "pollOperation ai operation f w = Some (c, w')"
  shows "op_done c \<and> (\<exists>evs. grows f w evs w' \<and> filter is_fetch evs = [])"
proof -
  from assms obtain i where "poll_loop ai f (operation, 0, w) = Some (c, i, w')"
    by (auto simp: pollOperation_def split: option.splits)
  from poll_loop_Some_iter [OF this] obtain k where
    k: "(c, i, w') = (poll_body ai f ^^ k) (operation, 0, w)" and d: "op_done c" by auto
  from grows_iter [where f = f and st = "(operation, 0, w)" and ai = ai and k = k] k [symmetric] d
  show ?thesis by simp
qed

lemma grows_world_at_poll:
  "grows f w [OnProgress ''Initializing video generation...'', GenerateVideos req,
              OnProgress ''Video generation started. This may take a few minutes.'']
     (world_at_poll f req w)"
  by (simp add: grows_def world_at_poll_def emit_def call_onProgress_def progress_def)

lemma generateVideoFromImage_completed:
  assumes "\<not> falsy (API_KEY e)"
      and "generateVideos e (request_of b64 mt p) = Inr operation"
      and "pollOperation e operation f (world_at_poll f (request_of b64 mt p) w) = Some (c, w4)"
  shows "generateVideoFromImage e b64 mt p f w =
           (if falsy (downloadLink c)
            then Some (Inl (ErrorObj
                   ''Video generation failed or did not return a valid download link.''),
                   emit (ConsoleError_Response c) w4)
            else
              (case fetch e (the (downloadLink c) @ ''&key='' @ the (API_KEY e)) of
                 Inl err \<Rightarrow> Some (Inl err, emit (Fetch (the (downloadLink c) @ ''&key='' @ the (API_KEY e)))
                                   (call_onProgress f ''Downloading generated video...'' w4))
               | Inr videoResponse \<Rightarrow>
                   Some (if \<not> ok videoResponse
                         then Inl (ErrorObj (''Failed to download video: '' @ statusText videoResponse))
                         else body_blob videoResponse,
                         emit (Fetch (the (downloadLink c) @ ''&key='' @ the (API_KEY e)))
                           (call_onProgress f ''Downloading generated video...'' w4))))"
  using assms
  by (simp add: generateVideoFromImage_def Let_def world_at_poll_def split: sum.split)

lemma fetch_after_poll:
  assumes "\<not> falsy (API_KEY e)"
      and "generateVideos e (request_of base64Image mimeType prompt_text) = Inr operation"
      and "pollOperation e operation onProgress
             (world_at_poll onProgress (request_of base64Image mimeType prompt_text) w)
           = Some (completedOperation, w4)"
  shows "op_done completedOperation
       \<and> (\<exists>r w'. generateVideoFromImage e base64Image mimeType prompt_text onProgress w = Some (r, w')
             \<and> filter is_fetch (log w') =
                 filter is_fetch (log w)
                   @ (if falsy (downloadLink completedOperation) then []
                      else [Fetch (the (downloadLink completedOperation) @ ''&key='' @ the (API_KEY e))])
             \<and> (falsy (downloadLink completedOperation) \<longrightarrow>
                   r = Inl (ErrorObj
                         ''Video generation failed or did not return a valid download link.'')
                   \<and> w' = emit (ConsoleError_Response completedOperation) w4))"
proof -
  from pollOperation_Some [OF assms(3)] obtain evs where
    d: "op_done completedOperation"
    and g: "grows onProgress (world_at_poll onProgress (request_of base64Image mimeType prompt_text) w) evs w4"
    and n: "filter is_fetch evs = []" by blast
  from grows_trans [OF grows_world_at_poll g] n
  have l: "filter is_fetch (log w4) = filter is_fetch (log w)"
    by (simp add: grows_def)
  note eq = generateVideoFromImage_completed [OF assms]
  show ?thesis
  proof (cases "falsy (downloadLink completedOperation)")
    case True
    then show ?thesis using d l by (simp add: eq emit_def)
  next
    case False
    then show ?thesis using d l
      by (cases "fetch e (the (downloadLink completedOperation) @ ''&key='' @ the (API_KEY e))")
         (simp_all add: eq emit_def call_onProgress_def)
  qed
qed

lemma poll_body_answered:
  assumes "getVideosOperation ai (polls w) c = Inr c'"
  shows "poll_body ai f (c, i, w) =
           (c', i + 1,
            \<lparr>ui = f (progressMessages ! (i mod 7)) (ui w),
             log = log w @ [OnProgress (progressMessages ! (i mod 7)), SetTimeout 10000,
                            GetVideosOperation c],
             polls = polls w + 1\<rparr>)"
  using assms
  by (simp add: poll_body_def Let_def emit_def call_onProgress_def length_progressMessages)

lemma pollOperation_first_poll:
  assumes "\<not> op_done operation"
      and "getVideosOperation ai (polls w) operation = Inr c"
      and "op_done c"
  shows "pollOperation ai operation f w =
           Some (c, \<lparr>ui = f ''Warming up the AI generators...'' (ui w),
                     log = log w @ [OnProgress ''Warming up the AI generators...'',
                                    SetTimeout 10000, GetVideosOperation operation],
                     polls = polls w + 1\<rparr>)"
proof -
  have "poll_loop ai f (operation, 0, w) = poll_loop ai f (poll_body ai f (operation, 0, w))"
    using assms(1) by (simp add: poll_loop_step)
  also have "\<dots> = Some (poll_body ai f (operation, 0, w))"
    using assms(3) by (simp add: poll_loop_done poll_body_answered [OF assms(2)])
  finally show ?thesis
    by (simp add: pollOperation_def poll_body_answered [OF assms(2)] progressMessages_def)
qed

text \<open>
  Claim C4. When the job reports completion at status query \<open>k\<close> (the handle the client
  then holds is done, those it held before were not), the poll loop returns that handle
  and the client returns. It has made a download request exactly when the handle carries
  a video reference (one that is present and not empty); when the reference is lacking
  it rejects with the missing-result error, having only logged the handle.
\<close>

theorem missing_reference_rejects_without_fetch:
  assumes "\<not> falsy (API_KEY e)"
      and "generateVideos e (request_of base64Image mimeType prompt_text) = Inr operation"
      and "\<forall>j<k. \<not> op_done (handle_after e (polls w) operation j)"
      and "op_done (handle_after e (polls w) operation k)"
  shows "\<exists>w4. pollOperation e operation onProgress
                (world_at_poll onProgress (request_of base64Image mimeType prompt_text) w)
              = Some (handle_after e (polls w) operation k, w4)
           \<and> (\<exists>r w'. generateVideoFromImage e base64Image mimeType prompt_text onProgress w
                       = Some (r, w')
                 \<and> filter is_fetch (log w') =
                     filter is_fetch (log w)
                       @ (if falsy (downloadLink (handle_after e (polls w) operation k)) then []
                          else [Fetch (the (downloadLink (handle_after e (polls w) operation k))
                                         @ ''&key='' @ the (API_KEY e))])
                 \<and> (falsy (downloadLink (handle_after e (polls w) operation k)) \<longrightarrow>
                       r = Inl (ErrorObj
                             ''Video generation failed or did not return a valid download link.'')
                       \<and> w' = emit (ConsoleError_Response (handle_after e (polls w) operation k)) w4))"
proof -
  let ?w3 = "world_at_poll onProgress (request_of base64Image mimeType prompt_text) w"
  have p: "pollOperation e operation onProgress ?w3 =
             Some (handle_after e (polls w) operation k,
                   snd (snd ((poll_body e onProgress ^^ k) (operation, 0, ?w3))))"
    using pollOperation_returns [where ai = e and w = ?w3 and operation = operation and k = k
        and f = onProgress] assms(3,4)
    by (simp add: polls_world_at_poll)
  from fetch_after_poll [OF assms(1,2) p] p show ?thesis by blast
qed

text \<open>C4 on the job that finishes, at the first query, with an empty list of videos.\<close>

theorem missing_reference_rejects_without_fetch_witness:
  "handle_after empty_env (polls ready) pending_operation (Suc 0) = empty_operation
   \<and> op_done empty_operation
   \<and> falsy (downloadLink empty_operation)
   \<and> (\<exists>w'. generateVideoFromImage empty_env (Some ''iVBORw0KGgo='') ''image/png'' ''a cat walking''
              setLoadingMessage ready
            = Some (Inl (ErrorObj
                ''Video generation failed or did not return a valid download link.''), w')
          \<and> filter is_fetch (log w') = [])"
proof -
  let ?req = "request_of (Some ''iVBORw0KGgo='') ''image/png'' ''a cat walking''"
  have k: "\<not> falsy (API_KEY empty_env)"
    by (simp add: falsy_def empty_env_def happy_env_def)
  have g: "generateVideos empty_env ?req = Inr pending_operation"
    by (simp add: empty_env_def happy_env_def)
  have h1: "handle_after empty_env (polls ready) pending_operation (Suc 0) = empty_operation"
    by (simp add: empty_env_def happy_env_def)
  have d: "op_done empty_operation" by (simp add: empty_operation_def)
  have h0: "\<forall>j<Suc 0. \<not> op_done (handle_after empty_env (polls ready) pending_operation j)"
    by (simp add: pending_operation_def)
  have hd: "op_done (handle_after empty_env (polls ready) pending_operation (Suc 0))"
    unfolding h1 by (rule d)
  have f: "falsy (downloadLink empty_operation)"
    by (simp add: falsy_def downloadLink_def empty_operation_def js_index_def)
  from missing_reference_rejects_without_fetch [OF k g h0 hd, of setLoadingMessage]
  have "\<exists>r w'. generateVideoFromImage empty_env (Some ''iVBORw0KGgo='') ''image/png''
                  ''a cat walking'' setLoadingMessage ready = Some (r, w')
          \<and> filter is_fetch (log w') =
              filter is_fetch (log ready)
                @ (if falsy (downloadLink empty_operation) then []
                   else [Fetch (the (downloadLink empty_operation) @ ''&key='' @ the (API_KEY empty_env))])
          \<and> (falsy (downloadLink empty_operation) \<longrightarrow>
                r = Inl (ErrorObj
                      ''Video generation failed or did not return a valid download link.''))"
    unfolding h1 by blast
  with f h1 d show ?thesis by (auto simp: ready_def)
qed

text \<open>
  Claim C5. With no API credential in the environment the client rejects at once with
  the missing-credential error and leaves the world as it was: no progress call, no
  job submission, no status query, no download. In the component, a submit that reaches
  the client then ends in the error state with that message, and its log holds the file
  read and the caught error only, so no network call.
\<close>

theorem missing_credential_fails_before_any_call:
  assumes "API_KEY e = None"
  shows "generateVideoFromImage e base64Image mimeType prompt_text onProgress w =
           Some (Inl (ErrorObj
             ''API key not found. Please ensure the API_KEY environment variable is set.''), w)
       \<and> (\<forall>f b. imageFile (ui a) = Some f \<and> prompt (ui a) \<noteq> [] \<and> fileToBase64 e f = Inr b \<longrightarrow>
            (\<exists>a'. handleGenerateVideo e a = Some a'
               \<and> appState (ui a') = ERROR
               \<and> error (ui a') =
                   Some ''API key not found. Please ensure the API_KEY environment variable is set.''
               \<and> log a' = log a @ [ReadFile f, ConsoleError_Caught (ErrorObj
                   ''API key not found. Please ensure the API_KEY environment variable is set.'')]
               \<and> filter is_network (log a') = filter is_network (log a)))"
proof -
  have 1: "\<And>b64 mt p (f :: string \<Rightarrow> 'c \<Rightarrow> 'c) v.
             generateVideoFromImage e b64 mt p f v =
             Some (Inl (ErrorObj
               ''API key not found. Please ensure the API_KEY environment variable is set.''), v)"
    using assms by (simp add: generateVideoFromImage_def falsy_def)
  have 2: "\<And>b64 mt p v.
             generateVideoFromImage e b64 mt p setLoadingMessage v =
             Some (Inl (ErrorObj
               ''API key not found. Please ensure the API_KEY environment variable is set.''), v)"
    using assms by (simp add: generateVideoFromImage_def falsy_def)
  show ?thesis
    by (auto simp: 1 2 handleGenerateVideo_def handleGenerateVideo_begin_def try_block_def
          catch_block_def on_rejected_def display_message_def falsy_def emit_def Let_def)
qed

text \<open>C5 on the environment without the credential.\<close>

theorem missing_credential_fails_before_any_call_witness:
  "API_KEY keyless_env = None
   \<and> generateVideoFromImage keyless_env (Some ''iVBORw0KGgo='') ''image/png'' ''a cat walking''
        setLoadingMessage ready
      = Some (Inl (ErrorObj
          ''API key not found. Please ensure the API_KEY environment variable is set.''), ready)
   \<and> (\<exists>a'. handleGenerateVideo keyless_env ready = Some a'
          \<and> appState (ui a') = ERROR
          \<and> error (ui a') =
              Some ''API key not found. Please ensure the API_KEY environment variable is set.''
          \<and> filter is_network (log a') = [])"
proof -
  have k: "API_KEY keyless_env = None" by (simp add: keyless_env_def)
  have b: "fileToBase64 keyless_env cat_png = Inr (Some ''iVBORw0KGgo='')"
    by (simp add: fileToBase64_def keyless_env_def happy_env_def js_index_def)
  have i: "imageFile (ui ready) = Some cat_png \<and> prompt (ui ready) \<noteq> []"
    by (simp add: ready_def ready_page_def initial_def)
  from missing_credential_fails_before_any_call [OF k, of "Some ''iVBORw0KGgo=''" "''image/png''"
      "''a cat walking''" setLoadingMessage ready ready] i b
  show ?thesis using k by (auto simp: ready_def)
qed

section \<open>The handlers of the component\<close>

text \<open>
  Claim C8. Called with no image selected, with an empty prompt, or with neither,
  \<^verbatim>\<open>handleGenerateVideo\<close> sets the validation message and returns: the session state
  and every other field stay as they were (an idle session stays idle), the run does not
  go on to the \<^verbatim>\<open>try\<close> block, and the log is unchanged, so no file is read and no
  generation call is made.
\<close>

theorem submit_without_image_or_prompt:
  assumes "imageFile (ui a) = None \<or> prompt (ui a) = []"
  shows "handleGenerateVideo e a =
           Some (a\<lparr>ui := (ui a)\<lparr>error := Some ''Please upload an image and provide a prompt.''\<rparr>\<rparr>)
       \<and> snd (handleGenerateVideo_begin (ui a)) = None
       \<and> (\<exists>a'. handleGenerateVideo e a = Some a'
              \<and> error (ui a') = Some ''Please upload an image and provide a prompt.''
              \<and> appState (ui a') = appState (ui a)
              \<and> log a' = log a)"
  using assms
  by (auto simp: handleGenerateVideo_def handleGenerateVideo_begin_def split: option.splits)

text \<open>C8 with neither, with an image and no prompt, and with a prompt and no image.\<close>

theorem submit_without_image_or_prompt_witness:
  "handleGenerateVideo happy_env \<lparr>ui = initial, log = [], polls = 0\<rparr> =
     Some \<lparr>ui = initial\<lparr>error := Some ''Please upload an image and provide a prompt.''\<rparr>,
           log = [], polls = 0\<rparr>
   \<and> handleGenerateVideo happy_env \<lparr>ui = ready_page\<lparr>prompt := []\<rparr>, log = [], polls = 0\<rparr> =
     Some \<lparr>ui = ready_page\<lparr>prompt := [],
                              error := Some ''Please upload an image and provide a prompt.''\<rparr>,
           log = [], polls = 0\<rparr>
   \<and> handleGenerateVideo happy_env \<lparr>ui = initial\<lparr>prompt := ''a cat walking''\<rparr>, log = [], polls = 0\<rparr> =
     Some \<lparr>ui = initial\<lparr>prompt := ''a cat walking'',
                           error := Some ''Please upload an image and provide a prompt.''\<rparr>,
           log = [], polls = 0\<rparr>"
proof -
  have 1: "imageFile (ui \<lparr>ui = initial, log = [], polls = 0\<rparr>) = None
           \<or> prompt (ui \<lparr>ui = initial, log = [], polls = 0\<rparr>) = []"
    by (simp add: initial_def)
  have 2: "imageFile (ui \<lparr>ui = ready_page\<lparr>prompt := []\<rparr>, log = [], polls = 0\<rparr>) = None
           \<or> prompt (ui \<lparr>ui = ready_page\<lparr>prompt := []\<rparr>, log = [], polls = 0\<rparr>) = []"
    by simp
  have 3: "imageFile (ui \<lparr>ui = initial\<lparr>prompt := ''a cat walking''\<rparr>, log = [], polls = 0\<rparr>) = None
           \<or> prompt (ui \<lparr>ui = initial\<lparr>prompt := ''a cat walking''\<rparr>, log = [], polls = 0\<rparr>) = []"
    by (simp add: initial_def)
  show ?thesis
    using submit_without_image_or_prompt [OF 1, of happy_env]
          submit_without_image_or_prompt [OF 2, of happy_env]
          submit_without_image_or_prompt [OF 3, of happy_env]
    by simp
qed

text \<open>
  Claim C9. When the file picked has a type that does not start with \<^verbatim>\<open>image/\<close>,
  \<^verbatim>\<open>handleImageChange\<close> sets the message about image files and clears the stored file
  and the preview; the session state and the other fields are untouched, and no preview
  is made from the file.
\<close>

theorem non_image_file_is_refused:
  assumes "\<not> prefix ''image/'' (file_type f)"
  shows "handleImageChange e (Some f) s =
           s\<lparr>error := Some ''Please upload a valid image file (e.g., PNG, JPG, WEBP).'',
             imageFile := None, imagePreviewUrl := None\<rparr>
       \<and> appState (handleImageChange e (Some f) s) = appState s
       \<and> imageFile (handleImageChange e (Some f) s) = None
       \<and> imagePreviewUrl (handleImageChange e (Some f) s) = None"
  using assms by (simp add: handleImageChange_def)

text \<open>C9 on a text file picked after an image.\<close>

theorem non_image_file_is_refused_witness:
  "\<not> prefix ''image/'' (file_type notes_txt)
   \<and> imagePreviewUrl ready_page = Some ''blob:preview''
   \<and> handleImageChange happy_env (Some notes_txt) ready_page =
       ready_page\<lparr>error := Some ''Please upload a valid image file (e.g., PNG, JPG, WEBP).'',
                  imageFile := None, imagePreviewUrl := None\<rparr>
   \<and> appState (handleImageChange happy_env (Some notes_txt) ready_page) = IDLE"
proof -
  have h: "\<not> prefix ''image/'' (file_type notes_txt)" by (simp add: notes_txt_def)
  show ?thesis
    using h non_image_file_is_refused [OF h, of happy_env ready_page]
    by (simp add: ready_page_def initial_def)
qed

section \<open>The session\<close>

lemma session_ok_start: "session_ok start"
  by (simp add: session_ok_def start_def initial_def)

lemma session_ok_step:
  assumes "session_ok c" and "step e a c = Some c'"
  shows "session_ok c'"
proof (cases a)
  case ClickGenerate
  with assms show ?thesis
    by (auto simp: step_def session_ok_def renderContent_def handleGenerateVideo_begin_def
          split: AppState.splits if_splits option.splits)
next
  case (PickFile picked)
  with assms show ?thesis
    by (auto simp: step_def session_ok_def renderContent_def handleImageChange_def
          split: AppState.splits if_splits option.splits)
next
  case (TypePrompt t)
  with assms show ?thesis
    by (auto simp: step_def session_ok_def renderContent_def setPrompt_def
          split: AppState.splits if_splits)
next
  case ClickReset
  with assms show ?thesis
    by (auto simp: step_def session_ok_def renderContent_def resetState_def
          split: AppState.splits if_splits)
next
  case (JobProgress m)
  with assms show ?thesis
    by (auto simp: step_def session_ok_def setLoadingMessage_def split: if_splits)
next
  case (JobResolved b)
  with assms show ?thesis
    by (auto simp: step_def session_ok_def on_resolved_def split: if_splits)
next
  case (JobRejected err)
  with assms show ?thesis
    by (auto simp: step_def session_ok_def on_rejected_def split: if_splits)
qed

lemma session_ok_run: "session_ok c \<Longrightarrow> run e acts c = Some c' \<Longrightarrow> session_ok c'"
proof (induction acts arbitrary: c)
  case Nil
  then show ?case by simp
next
  case (Cons a acts)
  then show ?case
    by (cases "step e a c") (auto dest: session_ok_step)
qed

lemma generating_has_no_button:
  "appState s = GENERATING \<Longrightarrow> renderContent s = GeneratingView (loadingMessage s)"
  by (simp add: renderContent_def)

text \<open>
  Claim C2. In every session (any sequence of user actions and job callbacks from the
  initial page), at most one run is under way, and one is under way exactly when the
  session state is generating. In that state the page is the generating view, which has
  no Generate button, so the submit action cannot occur and starts no second run: the
  controller gates the submit action on the session state through the view it renders.
\<close>

theorem no_second_submission_while_generating:
  assumes "run e acts start = Some c"
  shows "jobs c \<le> 1
       \<and> (jobs c = 1) = (appState (page c) = GENERATING)
       \<and> (appState (page c) = GENERATING \<longrightarrow>
            renderContent (page c) = GeneratingView (loadingMessage (page c))
            \<and> step e ClickGenerate c = None)"
proof -
  from session_ok_run [OF session_ok_start assms]
  have "jobs c = (if appState (page c) = GENERATING then 1 else 0)"
    by (simp add: session_ok_def)
  then show ?thesis
    by (auto simp: step_def generating_has_no_button)
qed

text \<open>C2 on a session that picks an image, types a prompt and submits; a second click
  then has no button to land on, and after the job's callbacks a new session can start.\<close>

theorem no_second_submission_while_generating_witness:
  "(\<exists>c. run happy_env [PickFile (Some cat_png), TypePrompt ''a cat walking'', ClickGenerate] start = Some c
        \<and> jobs c = 1 \<and> appState (page c) = GENERATING \<and> step happy_env ClickGenerate c = None)
   \<and> run happy_env [PickFile (Some cat_png), TypePrompt ''a cat walking'', ClickGenerate,
                      ClickGenerate] start = None"
proof -
  let ?c = "\<lparr>page = ready_page\<lparr>appState := GENERATING, loadingMessage := ''Preparing your image...''\<rparr>,
            jobs = 1\<rparr>"
  have r: "run happy_env [PickFile (Some cat_png), TypePrompt ''a cat walking'', ClickGenerate] start
           = Some ?c"
    by (simp add: start_def initial_def step_def renderContent_def handleImageChange_def
          setPrompt_def handleGenerateVideo_begin_def cat_png_def happy_env_def ready_page_def)
  from no_second_submission_while_generating [OF r]
  have s: "step happy_env ClickGenerate ?c = None" by simp
  have "run happy_env [PickFile (Some cat_png), TypePrompt ''a cat walking'', ClickGenerate,
                        ClickGenerate] start = None"
    using s
    by (simp add: start_def initial_def step_def renderContent_def handleImageChange_def
          setPrompt_def handleGenerateVideo_begin_def cat_png_def happy_env_def ready_page_def)
  with r s show ?thesis by simp
qed

section \<open>A whole run of handleGenerateVideo\<close>

lemma handleGenerateVideo_success:
  assumes "imageFile (ui a) = Some f" and "prompt (ui a) \<noteq> []"
      and "fileToBase64 e f = Inr base64Image"
      and "\<not> falsy (API_KEY e)"
      and "generateVideos e (request_of base64Image (file_type f) (prompt (ui a)))
           = Inr operation"
      and "\<not> op_done operation"
      and "getVideosOperation e (polls a) operation = Inr completedOperation"
      and "op_done completedOperation"
      and "\<not> falsy (downloadLink completedOperation)"
      and "fetch e (the (downloadLink completedOperation) @ ''&key='' @ the (API_KEY e))
           = Inr videoResponse"
      and "ok videoResponse"
      and "body_blob videoResponse = Inr videoBlob"
  shows "handleGenerateVideo e a =
           Some \<lparr>ui = (ui a)\<lparr>appState := SUCCESS, error := None,
                             loadingMessage := ''Downloading generated video...'',
                             generatedVideoUrl := Some (createObjectURL_blob e videoBlob)\<rparr>,
                 log = log a @
                   [ReadFile f,
                    OnProgress ''Initializing video generation...'',
                    GenerateVideos (request_of base64Image (file_type f) (prompt (ui a))),
                    OnProgress ''Video generation started. This may take a few minutes.'',
                    OnProgress ''Warming up the AI generators...'',
                    SetTimeout 10000,
                    GetVideosOperation operation,
                    OnProgress ''Downloading generated video...'',
                    Fetch (the (downloadLink completedOperation) @ ''&key='' @ the (API_KEY e))],
                 polls = polls a + 1\<rparr>"
proof -
  let ?req = "request_of base64Image (file_type f) (prompt (ui a))"
  let ?s0 = "(ui a)\<lparr>appState := GENERATING, error := None,
                       loadingMessage := ''Preparing your image...''\<rparr>"
  let ?a0 = "a\<lparr>ui := ?s0\<rparr>"
  let ?w = "emit (ReadFile f) ?a0"
  have b: "handleGenerateVideo_begin (ui a) = (?s0, Some (f, prompt (ui a)))"
    using assms(1,2) by (simp add: handleGenerateVideo_begin_def)
  note enc = assms(3)
  have q: "getVideosOperation e (polls (world_at_poll setLoadingMessage ?req ?w)) operation
           = Inr completedOperation"
    using assms(7) by (simp add: polls_world_at_poll emit_def)
  note p = pollOperation_first_poll [OF assms(6) q assms(8), of setLoadingMessage]
  have g: "generateVideoFromImage e base64Image (file_type f) (prompt (ui a))
             setLoadingMessage ?w =
           Some (Inr videoBlob,
             emit (Fetch (the (downloadLink completedOperation) @ ''&key='' @ the (API_KEY e)))
               (call_onProgress setLoadingMessage ''Downloading generated video...''
                 \<lparr>ui = setLoadingMessage ''Warming up the AI generators...''
                         (ui (world_at_poll setLoadingMessage ?req ?w)),
                  log = log (world_at_poll setLoadingMessage ?req ?w)
                          @ [OnProgress ''Warming up the AI generators...'',
                             SetTimeout 10000, GetVideosOperation operation],
                  polls = polls (world_at_poll setLoadingMessage ?req ?w) + 1\<rparr>))"
    using assms(9-12)
    by (subst generateVideoFromImage_completed [OF assms(4) assms(5) p]) simp
  show ?thesis
    apply (simp only: handleGenerateVideo_def b try_block_def enc Let_def g
             prod.case sum.case option.case)
    by (simp add: world_at_poll_def emit_def call_onProgress_def setLoadingMessage_def
          on_resolved_def)
qed

lemma begin_page:
  assumes "imageFile s = Some f" and "prompt s \<noteq> []"
  shows "appState (fst (handleGenerateVideo_begin s)) = GENERATING
       \<and> renderContent (fst (handleGenerateVideo_begin s)) =
           GeneratingView ''Preparing your image...''"
  using assms by (simp add: handleGenerateVideo_begin_def renderContent_def)

text \<open>
  Claim C6, amended. In the success scenario (an image and a non-empty prompt, the
  encoding succeeds, the credential is there, the job is submitted and is not done, the
  first status query answers with a done handle that carries a reference, the download
  succeeds), the submit puts the session in the generating state, and the page the
  handler leaves when it first suspends, at the reading of the file, shows the message
  \<^verbatim>\<open>Preparing your image...\<close>: that is the first progress message shown.
  \<^verbatim>\<open>Warming up the AI generators...\<close> is the first message of the poll loop, passed
  to the callback later, just before the ten-second wait of the first poll. The calls of
  the run are, in order, those of the log below, and the run ends in the success state
  with the object URL of the downloaded video on the page.
\<close>

theorem success_scenario_messages:
  assumes "imageFile (ui a) = Some f" and "prompt (ui a) \<noteq> []"
      and "fileToBase64 e f = Inr base64Image"
      and "\<not> falsy (API_KEY e)"
      and "generateVideos e (request_of base64Image (file_type f) (prompt (ui a)))
           = Inr operation"
      and "\<not> op_done operation"
      and "getVideosOperation e (polls a) operation = Inr completedOperation"
      and "op_done completedOperation"
      and "\<not> falsy (downloadLink completedOperation)"
      and "fetch e (the (downloadLink completedOperation) @ ''&key='' @ the (API_KEY e))
           = Inr videoResponse"
      and "ok videoResponse"
      and "body_blob videoResponse = Inr videoBlob"
  shows "appState (fst (handleGenerateVideo_begin (ui a))) = GENERATING
       \<and> renderContent (fst (handleGenerateVideo_begin (ui a))) =
           GeneratingView ''Preparing your image...''
       \<and> (\<exists>a'. handleGenerateVideo e a = Some a'
              \<and> log a' = log a @
                   [ReadFile f,
                    OnProgress ''Initializing video generation...'',
                    GenerateVideos (request_of base64Image (file_type f) (prompt (ui a))),
                    OnProgress ''Video generation started. This may take a few minutes.'',
                    OnProgress ''Warming up the AI generators...'',
                    SetTimeout 10000,
                    GetVideosOperation operation,
                    OnProgress ''Downloading generated video...'',
                    Fetch (the (downloadLink completedOperation) @ ''&key='' @ the (API_KEY e))]
              \<and> appState (ui a') = SUCCESS
              \<and> generatedVideoUrl (ui a') = Some (createObjectURL_blob e videoBlob)
              \<and> renderContent (ui a') = SuccessView (Some (createObjectURL_blob e videoBlob)))"
proof -
  have "\<exists>a'. handleGenerateVideo e a = Some a'
              \<and> log a' = log a @
                   [ReadFile f,
                    OnProgress ''Initializing video generation...'',
                    GenerateVideos (request_of base64Image (file_type f) (prompt (ui a))),
                    OnProgress ''Video generation started. This may take a few minutes.'',
                    OnProgress ''Warming up the AI generators...'',
                    SetTimeout 10000,
                    GetVideosOperation operation,
                    OnProgress ''Downloading generated video...'',
                    Fetch (the (downloadLink completedOperation) @ ''&key='' @ the (API_KEY e))]
              \<and> appState (ui a') = SUCCESS
              \<and> generatedVideoUrl (ui a') = Some (createObjectURL_blob e videoBlob)
              \<and> renderContent (ui a') = SuccessView (Some (createObjectURL_blob e videoBlob))"
    by (simp add: handleGenerateVideo_success [OF assms] renderContent_def)
  with begin_page [OF assms(1,2)] show ?thesis by blast
qed

lemma happy_run:
  "imageFile (ui ready) = Some cat_png \<and> prompt (ui ready) \<noteq> []
   \<and> fileToBase64 happy_env cat_png = Inr (Some ''iVBORw0KGgo='')
   \<and> \<not> falsy (API_KEY happy_env)
   \<and> generateVideos happy_env
        (request_of (Some ''iVBORw0KGgo='') (file_type cat_png) (prompt (ui ready)))
      = Inr pending_operation
   \<and> \<not> op_done pending_operation
   \<and> getVideosOperation happy_env (polls ready) pending_operation = Inr completed_operation
   \<and> op_done completed_operation
   \<and> \<not> falsy (downloadLink completed_operation)
   \<and> fetch happy_env (the (downloadLink completed_operation) @ ''&key='' @ the (API_KEY happy_env))
      = Inr \<lparr>ok = True, statusText = ''OK'', body_blob = Inr (Blob ''mp4'')\<rparr>"
  by (simp add: ready_def ready_page_def initial_def fileToBase64_def happy_env_def
        js_index_def falsy_def pending_operation_def completed_operation_def downloadLink_def)

text \<open>The amended C6 on the scenario of the spec: a PNG, the prompt \<^verbatim>\<open>a cat walking\<close>.\<close>

theorem success_scenario_messages_witness:
  "renderContent (fst (handleGenerateVideo_begin (ui ready))) =
     GeneratingView ''Preparing your image...''
   \<and> (\<exists>a'. handleGenerateVideo happy_env ready = Some a'
          \<and> log a' =
              [ReadFile cat_png,
               OnProgress ''Initializing video generation...'',
               GenerateVideos (request_of (Some ''iVBORw0KGgo='') ''image/png'' ''a cat walking''),
               OnProgress ''Video generation started. This may take a few minutes.'',
               OnProgress ''Warming up the AI generators...'',
               SetTimeout 10000,
               GetVideosOperation pending_operation,
               OnProgress ''Downloading generated video...'',
               Fetch ''https://videos.example/1?alt=media&key=secret'']
          \<and> appState (ui a') = SUCCESS
          \<and> renderContent (ui a') = SuccessView (Some ''blob:video''))"
proof -
  let ?resp = "\<lparr>ok = True, statusText = ''OK'', body_blob = Inr (Blob ''mp4'')\<rparr>"
  have k: "ok ?resp" "body_blob ?resp = Inr (Blob ''mp4'')" by simp_all
  from happy_run have
    h: "imageFile (ui ready) = Some cat_png" "prompt (ui ready) \<noteq> []"
       "fileToBase64 happy_env cat_png = Inr (Some ''iVBORw0KGgo='')"
       "\<not> falsy (API_KEY happy_env)"
       "generateVideos happy_env
          (request_of (Some ''iVBORw0KGgo='') (file_type cat_png) (prompt (ui ready)))
        = Inr pending_operation"
       "\<not> op_done pending_operation"
       "getVideosOperation happy_env (polls ready) pending_operation = Inr completed_operation"
       "op_done completed_operation"
       "\<not> falsy (downloadLink completed_operation)"
       "fetch happy_env (the (downloadLink completed_operation) @ ''&key='' @ the (API_KEY happy_env))
        = Inr ?resp"
    by blast+
  have u: "createObjectURL_blob happy_env (Blob ''mp4'') = ''blob:video''"
    by (simp add: happy_env_def)
  have l: "log ready = []" "file_type cat_png = ''image/png''"
          "prompt (ui ready) = ''a cat walking''"
          "the (downloadLink completed_operation) @ ''&key='' @ the (API_KEY happy_env) =
             ''https://videos.example/1?alt=media&key=secret''"
    by (simp_all add: ready_def ready_page_def initial_def cat_png_def downloadLink_def
          completed_operation_def js_index_def happy_env_def)
  from success_scenario_messages [OF h k] show ?thesis
    unfolding u l by auto
qed

text \<open>
  Claim C6 as it is written fails on that scenario: the page the submit leaves shows
  \<^verbatim>\<open>Preparing your image...\<close>, not the first message of the poll loop, and the first
  message that comes through the progress callback is
  \<^verbatim>\<open>Initializing video generation...\<close>; the run does end in the success state.
\<close>

theorem first_message_shown_counterexample:
  "renderContent (fst (handleGenerateVideo_begin (ui ready))) =
     GeneratingView ''Preparing your image...''
   \<and> renderContent (fst (handleGenerateVideo_begin (ui ready))) \<noteq>
     GeneratingView ''Warming up the AI generators...''
   \<and> map_option (\<lambda>a'. hd (progress (log a'))) (handleGenerateVideo happy_env ready) =
       Some ''Initializing video generation...''
   \<and> map_option (\<lambda>a'. appState (ui a')) (handleGenerateVideo happy_env ready) = Some SUCCESS"
proof -
  let ?resp = "\<lparr>ok = True, statusText = ''OK'', body_blob = Inr (Blob ''mp4'')\<rparr>"
  have k: "ok ?resp" "body_blob ?resp = Inr (Blob ''mp4'')" by simp_all
  from happy_run have
    h: "imageFile (ui ready) = Some cat_png" "prompt (ui ready) \<noteq> []"
       "fileToBase64 happy_env cat_png = Inr (Some ''iVBORw0KGgo='')"
       "\<not> falsy (API_KEY happy_env)"
       "generateVideos happy_env
          (request_of (Some ''iVBORw0KGgo='') (file_type cat_png) (prompt (ui ready)))
        = Inr pending_operation"
       "\<not> op_done pending_operation"
       "getVideosOperation happy_env (polls ready) pending_operation = Inr completed_operation"
       "op_done completed_operation"
       "\<not> falsy (downloadLink completed_operation)"
       "fetch happy_env (the (downloadLink completed_operation) @ ''&key='' @ the (API_KEY happy_env))
        = Inr ?resp"
    by blast+
  have l: "log ready = []" by (simp add: ready_def)
  have "map_option (\<lambda>a'. hd (progress (log a'))) (handleGenerateVideo happy_env ready) =
          Some ''Initializing video generation...''
        \<and> map_option (\<lambda>a'. appState (ui a')) (handleGenerateVideo happy_env ready) = Some SUCCESS"
    by (simp add: handleGenerateVideo_success [OF h k] l progress_def)
  with begin_page [OF h(1,2)] show ?thesis by simp
qed

section \<open>A run that fails\<close>

lemma generateVideoFromImage_grows:
  assumes "generateVideoFromImage e b64 mt p f w = Some (r, w')"
  shows "\<exists>evs. grows f w evs w'"
proof (cases "falsy (API_KEY e)")
  case True
  with assms have "w' = w" by (simp add: generateVideoFromImage_def)
  then show ?thesis using grows_refl by blast
next
  case key: False
  let ?req = "request_of b64 mt p"
  let ?w1 = "call_onProgress f ''Initializing video generation...'' w"
  have g1: "grows f w ([OnProgress ''Initializing video generation...''] @ [GenerateVideos ?req])
              (emit (GenerateVideos ?req) ?w1)"
    by (rule grows_trans [OF grows_call grows_emit]) simp
  show ?thesis
  proof (cases "generateVideos e ?req")
    case (Inl err)
    with key assms have "w' = emit (GenerateVideos ?req) ?w1"
      by (simp add: generateVideoFromImage_def Let_def)
    with g1 show ?thesis by blast
  next
    case (Inr operation)
    show ?thesis
    proof (cases "pollOperation e operation f (world_at_poll f ?req w)")
      case None
      with key Inr assms show ?thesis
        by (simp add: generateVideoFromImage_def Let_def world_at_poll_def)
    next
      case (Some cw)
      obtain c w4 where cw: "cw = (c, w4)" by (cases cw)
      note poll = Some [unfolded cw]
      from pollOperation_Some [OF poll] obtain evs where
        g4: "grows f (world_at_poll f ?req w) evs w4" by blast
      note g = grows_trans [OF grows_world_at_poll g4]
      note eq = generateVideoFromImage_completed [OF key Inr poll]
      let ?w6 = "emit (Fetch (the (downloadLink c) @ ''&key='' @ the (API_KEY e)))
                   (call_onProgress f ''Downloading generated video...'' w4)"
      have g6: "grows f w4 ([OnProgress ''Downloading generated video...'']
                  @ [Fetch (the (downloadLink c) @ ''&key='' @ the (API_KEY e))]) ?w6"
        by (rule grows_trans [OF grows_call grows_emit]) simp
      have g5: "grows f w4 [ConsoleError_Response c] (emit (ConsoleError_Response c) w4)"
        by (rule grows_emit) simp
      show ?thesis
      proof (cases "falsy (downloadLink c)")
        case True
        with assms eq have "w' = emit (ConsoleError_Response c) w4" by simp
        with grows_trans [OF g g5] show ?thesis by blast
      next
        case False
        with assms eq have "w' = ?w6" by (auto split: sum.splits)
        with grows_trans [OF g g6] show ?thesis by blast
      qed
    qed
  qed
qed

lemma try_block_thrown:
  assumes "try_block e f p w = Some (Inl err, w1)"
  shows "fileToBase64 e f = Inl err \<and> w1 = emit (ReadFile f) w
       \<or> (\<exists>b. fileToBase64 e f = Inr b
              \<and> generateVideoFromImage e b (file_type f) p setLoadingMessage (emit (ReadFile f) w)
                  = Some (Inl err, w1))"
  using assms
  by (auto simp: try_block_def Let_def split: sum.splits option.splits)

lemma try_block_grows:
  assumes "try_block e f p w = Some (Inl err, w1)"
  shows "\<exists>evs. grows setLoadingMessage w evs w1"
proof -
  have r: "grows setLoadingMessage w [ReadFile f] (emit (ReadFile f) w)"
    by (rule grows_emit) simp
  from try_block_thrown [OF assms] show ?thesis
  proof
    assume "fileToBase64 e f = Inl err \<and> w1 = emit (ReadFile f) w"
    with r show ?thesis by blast
  next
    assume "\<exists>b. fileToBase64 e f = Inr b
              \<and> generateVideoFromImage e b (file_type f) p setLoadingMessage (emit (ReadFile f) w)
                  = Some (Inl err, w1)"
    then obtain b evs where "grows setLoadingMessage (emit (ReadFile f) w) evs w1"
      using generateVideoFromImage_grows by blast
    from grows_trans [OF r this] show ?thesis by blast
  qed
qed

lemma foldl_setLoadingMessage:
  "foldl (\<lambda>u m. setLoadingMessage m u) s ms = s\<lparr>loadingMessage := last (loadingMessage s # ms)\<rparr>"
  by (induction ms arbitrary: s) (simp_all add: setLoadingMessage_def)

lemma grows_setLoadingMessage:
  assumes "grows setLoadingMessage w evs w1"
  shows "ui w1 = (ui w)\<lparr>loadingMessage :=
                   last (loadingMessage (ui w) # drop (length (progress (log w))) (progress (log w1)))\<rparr>"
  using assms by (simp add: grows_def foldl_setLoadingMessage progress_append)

lemma handleGenerateVideo_rejected:
  assumes "handleGenerateVideo_begin (ui a) = (s, Some (f, p))"
      and "try_block e f p (a\<lparr>ui := s\<rparr>) = Some (Inl err, a1)"
  shows "handleGenerateVideo e a = Some (catch_block err a1)"
  using assms by (simp add: handleGenerateVideo_def)

lemma begin_started:
  assumes "handleGenerateVideo_begin s0 = (s, Some (f, p))"
  shows "s = s0\<lparr>appState := GENERATING, error := None,
                loadingMessage := ''Preparing your image...''\<rparr>
       \<and> imageFile s0 = Some f \<and> p = prompt s0 \<and> p \<noteq> []"
  using assms by (auto simp: handleGenerateVideo_begin_def split: option.splits if_splits)


lemma ready_begin:
  "handleGenerateVideo_begin (ui ready) =
     (ready_page\<lparr>appState := GENERATING, error := None,
                 loadingMessage := ''Preparing your image...''\<rparr>,
      Some (cat_png, ''a cat walking''))"
  by (simp add: handleGenerateVideo_begin_def ready_def ready_page_def initial_def)



text \<open>
  Claim C10. When a submit ends in failure, the \<^verbatim>\<open>catch\<close> block changes the error
  message and the session state and nothing else: the page after it is the page at the
  moment of the failure with those two fields set. The selected file, the preview, the
  prompt and the generated-video reference are still those of the page before the submit;
  the progress message is the last one shown before the failure, and stays until
  \<^verbatim>\<open>resetState\<close> clears it.
\<close>

theorem failure_changes_only_state_and_error:
  assumes "handleGenerateVideo_begin (ui a) = (s, Some (f, p))"
      and "try_block e f p (a\<lparr>ui := s\<rparr>) = Some (Inl err, a1)"
  shows "\<exists>a2. handleGenerateVideo e a = Some a2
           \<and> ui a2 = (ui a1)\<lparr>error := Some (display_message err), appState := ERROR\<rparr>
           \<and> imageFile (ui a2) = imageFile (ui a)
           \<and> imagePreviewUrl (ui a2) = imagePreviewUrl (ui a)
           \<and> prompt (ui a2) = prompt (ui a)
           \<and> generatedVideoUrl (ui a2) = generatedVideoUrl (ui a)
           \<and> loadingMessage (ui a2) = loadingMessage (ui a1)
           \<and> loadingMessage (ui a1) =
               last (''Preparing your image...''
                       # drop (length (progress (log a))) (progress (log a1)))
           \<and> loadingMessage (resetState (ui a2)) = []"
proof -
  from try_block_grows [OF assms(2)] obtain evs where
    "grows setLoadingMessage (a\<lparr>ui := s\<rparr>) evs a1" by blast
  from grows_setLoadingMessage [OF this]
  have u: "ui a1 = s\<lparr>loadingMessage :=
                      last (loadingMessage s # drop (length (progress (log a))) (progress (log a1)))\<rparr>"
    by simp
  from begin_started [OF assms(1)]
  have s: "s = (ui a)\<lparr>appState := GENERATING, error := None,
                      loadingMessage := ''Preparing your image...''\<rparr>"
    by blast
  have c: "ui (catch_block err a1) = (ui a1)\<lparr>error := Some (display_message err), appState := ERROR\<rparr>"
    by (simp add: catch_block_def on_rejected_def emit_def Let_def)
  have "ui (catch_block err a1) = (ui a1)\<lparr>error := Some (display_message err), appState := ERROR\<rparr>
      \<and> imageFile (ui (catch_block err a1)) = imageFile (ui a)
      \<and> imagePreviewUrl (ui (catch_block err a1)) = imagePreviewUrl (ui a)
      \<and> prompt (ui (catch_block err a1)) = prompt (ui a)
      \<and> generatedVideoUrl (ui (catch_block err a1)) = generatedVideoUrl (ui a)
      \<and> loadingMessage (ui (catch_block err a1)) = loadingMessage (ui a1)
      \<and> loadingMessage (ui a1) =
          last (''Preparing your image...''
                  # drop (length (progress (log a))) (progress (log a1)))
      \<and> loadingMessage (resetState (ui (catch_block err a1))) = []"
    unfolding c by (subst (1 2 3 4 5 6 7) u) (simp add: s resetState_def)
  with handleGenerateVideo_rejected [OF assms] show ?thesis by blast
qed

text \<open>C10 on the job that finishes without a video: the message of the poll loop stays
  on the page in the error state.\<close>

theorem failure_changes_only_state_and_error_witness:
  "\<exists>a2. handleGenerateVideo empty_env ready = Some a2
        \<and> appState (ui a2) = ERROR
        \<and> error (ui a2) = Some ''Video generation failed or did not return a valid download link.''
        \<and> imageFile (ui a2) = Some cat_png
        \<and> imagePreviewUrl (ui a2) = Some ''blob:preview''
        \<and> prompt (ui a2) = ''a cat walking''
        \<and> generatedVideoUrl (ui a2) = None
        \<and> loadingMessage (ui a2) = ''Warming up the AI generators...''
        \<and> loadingMessage (resetState (ui a2)) = []"
proof -
  let ?s = "ready_page\<lparr>appState := GENERATING, error := None,
                        loadingMessage := ''Preparing your image...''\<rparr>"
  let ?w = "emit (ReadFile cat_png) (ready\<lparr>ui := ?s\<rparr>)"
  let ?req = "request_of (Some ''iVBORw0KGgo='') (file_type cat_png) ''a cat walking''"
  let ?err = "ErrorObj ''Video generation failed or did not return a valid download link.''"
  let ?a1 = "\<lparr>ui = ?s\<lparr>loadingMessage := ''Warming up the AI generators...''\<rparr>,
              log = [ReadFile cat_png,
                     OnProgress ''Initializing video generation...'',
                     GenerateVideos ?req,
                     OnProgress ''Video generation started. This may take a few minutes.'',
                     OnProgress ''Warming up the AI generators...'',
                     SetTimeout 10000,
                     GetVideosOperation pending_operation,
                     ConsoleError_Response empty_operation],
              polls = 1\<rparr>"
  have enc: "fileToBase64 empty_env cat_png = Inr (Some ''iVBORw0KGgo='')"
    by (simp add: fileToBase64_def empty_env_def happy_env_def js_index_def)
  have k: "\<not> falsy (API_KEY empty_env)"
    by (simp add: falsy_def empty_env_def happy_env_def)
  have g: "generateVideos empty_env ?req = Inr pending_operation"
    by (simp add: empty_env_def happy_env_def)
  have p: "pollOperation empty_env pending_operation setLoadingMessage
             (world_at_poll setLoadingMessage ?req ?w) =
           Some (empty_operation,
                 \<lparr>ui = setLoadingMessage ''Warming up the AI generators...''
                         (ui (world_at_poll setLoadingMessage ?req ?w)),
                  log = log (world_at_poll setLoadingMessage ?req ?w)
                          @ [OnProgress ''Warming up the AI generators...'',
                             SetTimeout 10000, GetVideosOperation pending_operation],
                  polls = polls (world_at_poll setLoadingMessage ?req ?w) + 1\<rparr>)"
    by (rule pollOperation_first_poll)
       (simp_all add: pending_operation_def empty_operation_def empty_env_def happy_env_def)
  have f: "falsy (downloadLink empty_operation)"
    by (simp add: falsy_def downloadLink_def empty_operation_def js_index_def)
  have t: "try_block empty_env cat_png ''a cat walking'' (ready\<lparr>ui := ?s\<rparr>) = Some (Inl ?err, ?a1)"
    apply (simp only: try_block_def enc Let_def sum.case
             generateVideoFromImage_completed [OF k g p] f if_True option.case prod.case)
    by (simp add: world_at_poll_def emit_def call_onProgress_def setLoadingMessage_def ready_def)
  have d: "display_message ?err =
             ''Video generation failed or did not return a valid download link.''"
    by (simp add: display_message_def falsy_def)
  from failure_changes_only_state_and_error [OF ready_begin t] obtain a2 where
    "handleGenerateVideo empty_env ready = Some a2"
    "ui a2 = (ui ?a1)\<lparr>error := Some (display_message ?err), appState := ERROR\<rparr>"
    "loadingMessage (resetState (ui a2)) = []"
    by blast
  then show ?thesis
    by (simp add: d ready_page_def initial_def)
qed

end
